theory Spec2Isabelle
  imports Complex_Main
begin

section \<open>JavaScript numbers\<close>

text \<open>
  The price and profit code computes with JavaScript numbers.  A number is modelled as a
  finite value, one of the two infinities, or NaN.  Finite values are exact rationals:
  rounding, overflow of a finite operation to an infinity and underflow to zero are not
  modelled, and the two zeros of the floating-point format are one value that divides
  like \<open>+0\<close>.  What is modelled is every place where the special values arise or
  are tested: division by zero, \<open>Infinity - Infinity\<close>, \<open>0 * Infinity\<close>, comparisons
  with NaN (always false) and truthiness (\<open>0\<close> and NaN are falsy).
\<close>

datatype jsnum = Fin rat | PosInf | NegInf | NaN

fun js_add :: "jsnum \<Rightarrow> jsnum \<Rightarrow> jsnum" where
  "js_add NaN y = NaN"
| "js_add x NaN = NaN"
| "js_add (Fin a) (Fin b) = Fin (a + b)"
| "js_add PosInf NegInf = NaN"
| "js_add NegInf PosInf = NaN"
| "js_add PosInf y = PosInf"
| "js_add x PosInf = PosInf"
| "js_add NegInf y = NegInf"
| "js_add x NegInf = NegInf"

fun js_sub :: "jsnum \<Rightarrow> jsnum \<Rightarrow> jsnum" where
  "js_sub NaN y = NaN"
| "js_sub x NaN = NaN"
| "js_sub (Fin a) (Fin b) = Fin (a - b)"
| "js_sub PosInf PosInf = NaN"
| "js_sub NegInf NegInf = NaN"
| "js_sub PosInf y = PosInf"
| "js_sub x PosInf = NegInf"
| "js_sub NegInf y = NegInf"
| "js_sub x NegInf = PosInf"

fun js_mul :: "jsnum \<Rightarrow> jsnum \<Rightarrow> jsnum" where
  "js_mul NaN y = NaN"
| "js_mul x NaN = NaN"
| "js_mul (Fin a) (Fin b) = Fin (a * b)"
| "js_mul (Fin a) PosInf = (if a = 0 then NaN else if 0 < a then PosInf else NegInf)"
| "js_mul (Fin a) NegInf = (if a = 0 then NaN else if 0 < a then NegInf else PosInf)"
| "js_mul PosInf (Fin b) = (if b = 0 then NaN else if 0 < b then PosInf else NegInf)"
| "js_mul NegInf (Fin b) = (if b = 0 then NaN else if 0 < b then NegInf else PosInf)"
| "js_mul PosInf PosInf = PosInf"
| "js_mul PosInf NegInf = NegInf"
| "js_mul NegInf PosInf = NegInf"
| "js_mul NegInf NegInf = PosInf"

fun js_div :: "jsnum \<Rightarrow> jsnum \<Rightarrow> jsnum" where
  "js_div NaN y = NaN"
| "js_div x NaN = NaN"
| "js_div (Fin a) (Fin b) =
     (if b \<noteq> 0 then Fin (a / b)
      else if a = 0 then NaN else if 0 < a then PosInf else NegInf)"
| "js_div (Fin a) PosInf = Fin 0"
| "js_div (Fin a) NegInf = Fin 0"
| "js_div PosInf (Fin b) = (if 0 \<le> b then PosInf else NegInf)"
| "js_div NegInf (Fin b) = (if 0 \<le> b then NegInf else PosInf)"
| "js_div PosInf y = NaN"
| "js_div NegInf y = NaN"

fun js_abs :: "jsnum \<Rightarrow> jsnum" where
  "js_abs (Fin a) = Fin \<bar>a\<bar>"
| "js_abs PosInf = PosInf"
| "js_abs NegInf = PosInf"
| "js_abs NaN = NaN"

fun js_lt :: "jsnum \<Rightarrow> jsnum \<Rightarrow> bool" where
  "js_lt NaN y = False"
| "js_lt x NaN = False"
| "js_lt (Fin a) (Fin b) = (a < b)"
| "js_lt x NegInf = False"
| "js_lt PosInf y = False"
| "js_lt NegInf y = True"
| "js_lt x PosInf = True"

definition js_gt :: "jsnum \<Rightarrow> jsnum \<Rightarrow> bool" where
  "js_gt x y = js_lt y x"

fun js_ge :: "jsnum \<Rightarrow> jsnum \<Rightarrow> bool" where
  "js_ge NaN y = False"
| "js_ge x NaN = False"
| "js_ge x y = (\<not> js_lt x y)"

text \<open>Truthiness of a number: \<open>0\<close> and NaN are falsy, everything else is truthy.\<close>

fun js_truthy :: "jsnum \<Rightarrow> bool" where
  "js_truthy (Fin a) = (a \<noteq> 0)"
| "js_truthy NaN = False"
| "js_truthy x = True"

text \<open>\<open>10 ** k\<close> for an integral exponent \<open>k\<close>.\<close>

definition js_pow10 :: "int \<Rightarrow> jsnum" where
  "js_pow10 k = (if 0 \<le> k then Fin (10 ^ nat k) else Fin (1 / 10 ^ nat (- k)))"


section \<open>Price normalizer (priceFetcher)\<close>

text \<open>
  The argument \<open>sqrtPriceX96\<close> is a BigInt, \<open>null\<close> or \<open>undefined\<close>; the decimals are
  integral numbers.  \<open>Number(sqrtPriceX96)\<close> is the exact value of the BigInt.
\<close>

datatype bigint_arg = Null | Undefined | BigInt int

definition Q96 :: int where
  "Q96 = 2 ^ 96"

definition sqrtPriceX96ToPrice :: "bigint_arg \<Rightarrow> int \<Rightarrow> int \<Rightarrow> jsnum" where
  "sqrtPriceX96ToPrice sqrtPriceX96 token0Decimals token1Decimals =
     (case sqrtPriceX96 of
        Null \<Rightarrow> Fin 0
      | Undefined \<Rightarrow> Fin 0
      | BigInt n \<Rightarrow>
          if n = 0 then Fin 0
          else
            let sqrtPrice = js_div (Fin (of_int n)) (Fin (of_int Q96));
                price = js_mul sqrtPrice sqrtPrice;
                decimalAdjustment = js_pow10 (token0Decimals - token1Decimals)
            in js_mul price decimalAdjustment)"

definition sqrtPriceX96ToInversePrice :: "bigint_arg \<Rightarrow> int \<Rightarrow> int \<Rightarrow> jsnum" where
  "sqrtPriceX96ToInversePrice sqrtPriceX96 token0Decimals token1Decimals =
     (let price = sqrtPriceX96ToPrice sqrtPriceX96 token0Decimals token1Decimals
      in js_div (Fin 1) price)"


section \<open>Arbitrage calculator\<close>

subsection \<open>Configuration constants\<close>

definition MIN_PROFIT_THRESHOLD_USD :: jsnum where
  "MIN_PROFIT_THRESHOLD_USD = Fin 1"

definition MIN_PRICE_DIFF_PERCENT :: jsnum where
  "MIN_PRICE_DIFF_PERCENT = Fin (1 / 10)"

definition SLIPPAGE_TOLERANCE_PERCENT :: jsnum where
  "SLIPPAGE_TOLERANCE_PERCENT = Fin (1 / 2)"

subsection \<open>Price data of one DEX\<close>

text \<open>
  A price object is what a fetch resolves to: the full record of a pool, or only
  \<open>dex\<close> and \<open>error\<close> when the fetch failed.  A field that is absent reads as
  \<open>undefined\<close>, here \<open>None\<close>.
\<close>

record priceData =
  dex :: string
  error :: "string option"
  priceToken0InToken1 :: "jsnum option"
  liquidity :: "string option"

text \<open>A string is truthy when it is not empty; \<open>undefined\<close> is falsy.\<close>

definition str_truthy :: "string option \<Rightarrow> bool" where
  "str_truthy s = (case s of None \<Rightarrow> False | Some t \<Rightarrow> t \<noteq> [])"

definition num_truthy :: "jsnum option \<Rightarrow> bool" where
  "num_truthy v = (case v of None \<Rightarrow> False | Some x \<Rightarrow> js_truthy x)"

text \<open>\<open>undefined\<close> used as a number is NaN.\<close>

definition to_number :: "jsnum option \<Rightarrow> jsnum" where
  "to_number v = (case v of None \<Rightarrow> NaN | Some x \<Rightarrow> x)"

subsection \<open>calculatePriceDifference\<close>

definition calculatePriceDifference :: "jsnum \<Rightarrow> jsnum \<Rightarrow> jsnum" where
  "calculatePriceDifference price1 price2 =
     (if price1 = Fin 0 \<or> price2 = Fin 0 then Fin 0
      else
        let avgPrice = js_div (js_add price1 price2) (Fin 2);
            diff = js_abs (js_sub price1 price2)
        in js_mul (js_div diff avgPrice) (Fin 100))"

subsection \<open>determineArbitrageDirection\<close>

text \<open>
  The first four fields are also the \<open>direction\<close> object of the final analysis, so
  they form a record of their own that the result of this function extends.
\<close>

record tradeDirection =
  buyFrom :: string
  buyPrice :: jsnum
  sellTo :: string
  sellPrice :: jsnum

record direction = tradeDirection +
  priceDiffPercent :: jsnum

definition determineArbitrageDirection :: "priceData \<Rightarrow> priceData \<Rightarrow> direction" where
  "determineArbitrageDirection priceData1 priceData2 =
     (let price1 = to_number (priceToken0InToken1 priceData1);
          price2 = to_number (priceToken0InToken1 priceData2)
      in if js_lt price1 price2
         then \<lparr> buyFrom = dex priceData1, buyPrice = price1,
                sellTo = dex priceData2, sellPrice = price2,
                priceDiffPercent = calculatePriceDifference price1 price2 \<rparr>
         else \<lparr> buyFrom = dex priceData2, buyPrice = price2,
                sellTo = dex priceData1, sellPrice = price1,
                priceDiffPercent = calculatePriceDifference price1 price2 \<rparr>)"

subsection \<open>calculatePotentialProfit\<close>

record profitCalc =
  tradeAmount :: jsnum
  costToBuy :: jsnum
  revenueFromSell :: jsnum
  grossProfitQuote :: jsnum
  profitPercent :: jsnum
  effectiveBuyPrice :: jsnum
  effectiveSellPrice :: jsnum

definition calculatePotentialProfit :: "jsnum \<Rightarrow> jsnum \<Rightarrow> jsnum \<Rightarrow> jsnum \<Rightarrow> profitCalc" where
  "calculatePotentialProfit buyPrice' sellPrice' tradeAmount' slippagePercent =
     (let effBuy = js_mul buyPrice' (js_add (Fin 1) (js_div slippagePercent (Fin 100)));
          effSell = js_mul sellPrice' (js_sub (Fin 1) (js_div slippagePercent (Fin 100)));
          cost = js_mul tradeAmount' effBuy;
          revenue = js_mul tradeAmount' effSell;
          gross = js_sub revenue cost;
          pct = js_mul (js_div gross cost) (Fin 100)
      in \<lparr> tradeAmount = tradeAmount', costToBuy = cost, revenueFromSell = revenue,
           grossProfitQuote = gross, profitPercent = pct,
           effectiveBuyPrice = effBuy, effectiveSellPrice = effSell \<rparr>)"

subsection \<open>calculateNetProfit\<close>

record netProfitCalc =
  grossProfitUsd :: jsnum
  totalGasCostUsd :: jsnum
  netProfitUsd :: jsnum
  isProfitable :: bool
  profitAfterGasPercent :: jsnum

definition calculateNetProfit :: "jsnum \<Rightarrow> jsnum \<Rightarrow> netProfitCalc" where
  "calculateNetProfit grossProfit gasCostUsd =
     (let totalGasCost = js_mul gasCostUsd (Fin 2);
          netProfit = js_sub grossProfit totalGasCost
      in \<lparr> grossProfitUsd = grossProfit,
           totalGasCostUsd = totalGasCost,
           netProfitUsd = netProfit,
           isProfitable = js_gt netProfit MIN_PROFIT_THRESHOLD_USD,
           profitAfterGasPercent =
             (if js_gt grossProfit (Fin 0)
              then js_mul (js_div netProfit grossProfit) (Fin 100) else Fin 0) \<rparr>)"

subsection \<open>getRecommendation\<close>

text \<open>
  The recommendation is one of three message templates; the numbers that the source
  renders into the message with \<open>toFixed(4)\<close> are kept as numbers.
\<close>

datatype recommendation =
    NoTradeBelowThreshold
  | NoTradeGasExceedsProfit jsnum jsnum
  | ProfitableNet jsnum

definition getRecommendation :: "netProfitCalc \<Rightarrow> jsnum \<Rightarrow> recommendation" where
  "getRecommendation netCalc pctDiff =
     (if js_lt pctDiff MIN_PRICE_DIFF_PERCENT then NoTradeBelowThreshold
      else if \<not> isProfitable netCalc
        then NoTradeGasExceedsProfit (totalGasCostUsd netCalc) (grossProfitUsd netCalc)
      else ProfitableNet (netProfitUsd netCalc))"

subsection \<open>analyzeArbitrage\<close>

text \<open>
  The three shapes of the returned object are the three constructors of the result.  The
  fields of \<open>profitAnalysis\<close> that share a name with a field of \<open>netProfitCalc\<close>
  carry the prefix \<open>pa_\<close>.  The \<open>timestamp\<close> of the full analysis is the wall clock
  and is left out.
\<close>

record priceDifference =
  percent :: jsnum
  meetsThreshold :: bool

record profitAnalysis =
  tradeAmountEth :: jsnum
  pa_grossProfitUsd :: jsnum
  pa_gasCostUsd :: jsnum
  pa_netProfitUsd :: jsnum
  profitAfterSlippage :: jsnum

record analysis =
  hasOpportunity :: bool
  isProfitableAfterGas :: bool
  direction :: tradeDirection
  priceDifference :: priceDifference
  profitAnalysis :: profitAnalysis
  recommendation :: recommendation
  allPrices :: "(string \<times> jsnum option \<times> string option) list"

datatype analysisResult =
    Insufficient string nat
  | SameDex string "(string \<times> jsnum option) list"
  | Analysis analysis

text \<open>The \<open>hasOpportunity\<close> field, which every shape of the result has.\<close>

fun resultHasOpportunity :: "analysisResult \<Rightarrow> bool" where
  "resultHasOpportunity (Insufficient reason n) = False"
| "resultHasOpportunity (SameDex reason ps) = False"
| "resultHasOpportunity (Analysis a) = hasOpportunity a"

definition isValidPrice :: "priceData \<Rightarrow> bool" where
  "isValidPrice p = (\<not> str_truthy (error p) \<and> num_truthy (priceToken0InToken1 p))"

text \<open>One iteration of the scan for the lowest and the highest price.\<close>

definition bestStep :: "priceData \<times> priceData \<Rightarrow> priceData \<Rightarrow> priceData \<times> priceData" where
  "bestStep best price =
     (let bestBuy = fst best; bestSell = snd best;
          bestBuy' = (if js_lt (to_number (priceToken0InToken1 price))
                               (to_number (priceToken0InToken1 bestBuy))
                      then price else bestBuy);
          bestSell' = (if js_gt (to_number (priceToken0InToken1 price))
                                (to_number (priceToken0InToken1 bestSell))
                       then price else bestSell)
      in (bestBuy', bestSell'))"

definition findBest :: "priceData list \<Rightarrow> priceData \<times> priceData" where
  "findBest validPrices = foldl bestStep (validPrices ! 0, validPrices ! 0) validPrices"

definition analyzeArbitrage :: "priceData list \<Rightarrow> jsnum \<Rightarrow> jsnum \<Rightarrow> analysisResult" where
  "analyzeArbitrage prices tradeAmountEth' gasCostUsd =
     (let validPrices = filter isValidPrice prices
      in if length validPrices < 2
         then Insufficient ''Insufficient valid price data from DEXes'' (length validPrices)
         else
           let best = findBest validPrices;
               bestBuy = fst best; bestSell = snd best
           in if dex bestBuy = dex bestSell
              then SameDex ''Best buy and sell prices are from the same DEX''
                     (map (\<lambda>p. (dex p, priceToken0InToken1 p)) validPrices)
              else
                let dir = determineArbitrageDirection bestBuy bestSell;
                    pc = calculatePotentialProfit (buyPrice dir) (sellPrice dir)
                           tradeAmountEth' SLIPPAGE_TOLERANCE_PERCENT;
                    netCalc = calculateNetProfit (grossProfitQuote pc) gasCostUsd;
                    hasOpp = js_ge (priceDiffPercent dir) MIN_PRICE_DIFF_PERCENT
                in Analysis
                     \<lparr> hasOpportunity = hasOpp,
                       isProfitableAfterGas = isProfitable netCalc,
                       direction = \<lparr> buyFrom = buyFrom dir, buyPrice = buyPrice dir,
                                     sellTo = sellTo dir, sellPrice = sellPrice dir \<rparr>,
                       priceDifference =
                         \<lparr> percent = priceDiffPercent dir,
                           meetsThreshold = js_ge (priceDiffPercent dir) MIN_PRICE_DIFF_PERCENT \<rparr>,
                       profitAnalysis =
                         \<lparr> tradeAmountEth = tradeAmountEth',
                           pa_grossProfitUsd = grossProfitQuote pc,
                           pa_gasCostUsd = totalGasCostUsd netCalc,
                           pa_netProfitUsd = netProfitUsd netCalc,
                           profitAfterSlippage = profitPercent pc \<rparr>,
                       recommendation = getRecommendation netCalc (priceDiffPercent dir),
                       allPrices = map (\<lambda>p. (dex p, priceToken0InToken1 p, liquidity p))
                                     validPrices \<rparr>)"

text \<open>
  Quotes as the fetchers produce them: a successful one carries a price and a liquidity,
  a failed one only the DEX name and the error message.
\<close>

definition okQuote :: "string \<Rightarrow> jsnum \<Rightarrow> priceData" where
  "okQuote d p = \<lparr> dex = d, error = None, priceToken0InToken1 = Some p,
                   liquidity = Some ''1000000'' \<rparr>"

definition failedQuote :: "string \<Rightarrow> string \<Rightarrow> priceData" where
  "failedQuote d msg = \<lparr> dex = d, error = Some msg, priceToken0InToken1 = None,
                         liquidity = None \<rparr>"

text \<open>The full analysis inside a result, when the result has that shape.\<close>

fun resultAnalysis :: "analysisResult \<Rightarrow> analysis option" where
  "resultAnalysis (Analysis a) = Some a"
| "resultAnalysis r = None"

section \<open>AI agent (aiAgent)\<close>

subsection \<open>Errors, contexts and categories\<close>

text \<open>
  An error is an \<open>Error\<close> object: a message string and an optional \<open>code\<close>.  A
  context is an object of which the agent reads only \<open>operation\<close>; the error handler
  adds \<open>retryCount\<close> to the copy it passes to the agent.  The nine values of
  \<open>ERROR_CATEGORIES\<close> are the constructors of \<open>category\<close>.
\<close>

record jserror =
  message :: string
  code :: "string option"

record opContext =
  operation :: "string option"
  retryCount :: "nat option"

datatype category =
  NETWORK | CONTRACT | PRICE | LIQUIDITY | GAS | SLIPPAGE | CONFIG | LOGIC | UNKNOWN

subsection \<open>String helpers\<close>

text \<open>\<open>toLowerCase\<close> on the letters A to Z; other characters are unchanged.\<close>

definition lowerChar :: "char \<Rightarrow> char" where
  "lowerChar c =
     (case map_of (zip ''ABCDEFGHIJKLMNOPQRSTUVWXYZ'' ''abcdefghijklmnopqrstuvwxyz'') c of
        None \<Rightarrow> c | Some d \<Rightarrow> d)"

definition toLowerCase :: "string \<Rightarrow> string" where
  "toLowerCase s = map lowerChar s"

fun startsWith :: "string \<Rightarrow> string \<Rightarrow> bool" where
  "startsWith s [] = True"
| "startsWith [] (p # ps) = False"
| "startsWith (c # cs) (p # ps) = (c = p \<and> startsWith cs ps)"

text \<open>\<open>s.includes(sub)\<close>: \<open>sub\<close> occurs in \<open>s\<close> at some position.\<close>

fun str_includes :: "string \<Rightarrow> string \<Rightarrow> bool" where
  "str_includes [] sub = (sub = [])"
| "str_includes (c # cs) sub = (startsWith (c # cs) sub \<or> str_includes cs sub)"

subsection \<open>Classification and the static tables\<close>

definition orEmpty :: "string option \<Rightarrow> string" where
  "orEmpty v = (case v of None \<Rightarrow> [] | Some t \<Rightarrow> t)"

definition categorizeError :: "jserror \<Rightarrow> opContext \<Rightarrow> category" where
  "categorizeError err ctx =
     (let msg = toLowerCase (message err); cd = orEmpty (code err)
      in if cd = ''NETWORK_ERROR'' \<or> str_includes msg ''network''
            \<or> str_includes msg ''timeout'' \<or> str_includes msg ''connection'' then NETWORK
         else if str_includes msg ''contract'' \<or> str_includes msg ''revert''
            \<or> str_includes msg ''execution reverted'' \<or> cd = ''CALL_EXCEPTION'' then CONTRACT
         else if str_includes msg ''price'' \<or> str_includes msg ''sqrtprice''
            \<or> str_includes msg ''slot0'' \<or> operation ctx = Some ''price_fetch'' then PRICE
         else if str_includes msg ''liquidity'' \<or> str_includes msg ''insufficient'' then LIQUIDITY
         else if str_includes msg ''gas'' \<or> str_includes msg ''fee''
            \<or> cd = ''INSUFFICIENT_FUNDS'' then GAS
         else if str_includes msg ''slippage'' \<or> str_includes msg ''price impact''
            \<or> str_includes msg ''too much'' then SLIPPAGE
         else if str_includes msg ''config'' \<or> str_includes msg ''invalid address''
            \<or> str_includes msg ''unknown pair'' then CONFIG
         else if str_includes msg ''cannot read'' \<or> str_includes msg ''undefined''
            \<or> str_includes msg ''null'' \<or> str_includes msg ''nan'' then LOGIC
         else UNKNOWN)"

fun severityMap :: "category \<Rightarrow> nat" where
  "severityMap NETWORK = 3"
| "severityMap CONTRACT = 4"
| "severityMap PRICE = 3"
| "severityMap LIQUIDITY = 4"
| "severityMap GAS = 3"
| "severityMap SLIPPAGE = 2"
| "severityMap CONFIG = 5"
| "severityMap LOGIC = 5"
| "severityMap UNKNOWN = 3"

definition assessSeverity :: "jserror \<Rightarrow> opContext \<Rightarrow> nat" where
  "assessSeverity err ctx = severityMap (categorizeError err ctx)"

text \<open>
  The root causes, recommendations and code changes are rows of fixed text selected by
  the category.  A root cause is kept as its \<open>cause\<close>, a recommendation as its
  \<open>priority\<close> and \<open>action\<close>, a code change as its \<open>file\<close> and \<open>description\<close>; the
  remaining fields are free text that no code path reads.
\<close>

fun findRootCause :: "category \<Rightarrow> string" where
  "findRootCause NETWORK = ''Network connectivity or RPC endpoint issue''"
| "findRootCause CONTRACT = ''Smart contract execution failure''"
| "findRootCause PRICE = ''Price data retrieval or calculation error''"
| "findRootCause LIQUIDITY = ''Insufficient liquidity in pool''"
| "findRootCause GAS = ''Gas estimation or payment failure''"
| "findRootCause SLIPPAGE = ''Price slippage exceeded tolerance''"
| "findRootCause CONFIG = ''Configuration parameter error''"
| "findRootCause LOGIC = ''Code logic or data handling error''"
| "findRootCause UNKNOWN = ''Unidentified error''"

fun generateRecommendations :: "category \<Rightarrow> (string \<times> string) list" where
  "generateRecommendations NETWORK =
     [(''high'', ''Switch to backup RPC endpoint''),
      (''medium'', ''Implement exponential backoff retry'')]"
| "generateRecommendations CONTRACT =
     [(''high'', ''Verify contract address and ABI''),
      (''medium'', ''Add contract existence validation'')]"
| "generateRecommendations PRICE =
     [(''high'', ''Add sqrtPriceX96 validation''),
      (''medium'', ''Implement price sanity checks'')]"
| "generateRecommendations LIQUIDITY =
     [(''high'', ''Check liquidity before trade analysis''),
      (''medium'', ''Implement dynamic trade sizing'')]"
| "generateRecommendations GAS =
     [(''high'', ''Implement dynamic gas pricing''),
      (''medium'', ''Add gas buffer margin'')]"
| "generateRecommendations SLIPPAGE =
     [(''high'', ''Adjust slippage tolerance dynamically''),
      (''medium'', ''Implement trade splitting'')]"
| "generateRecommendations CONFIG =
     [(''critical'', ''Validate all configuration on startup'')]"
| "generateRecommendations LOGIC =
     [(''critical'', ''Add comprehensive null/undefined checks''),
      (''high'', ''Implement input validation'')]"
| "generateRecommendations UNKNOWN =
     [(''medium'', ''Add detailed error logging'')]"

fun generateCodeChanges :: "category \<Rightarrow> (string \<times> string) list" where
  "generateCodeChanges NETWORK =
     [(''src/priceFetcher.js'', ''Add retry logic with fallback RPC endpoints'')]"
| "generateCodeChanges PRICE =
     [(''src/priceFetcher.js'', ''Add price sanity validation'')]"
| "generateCodeChanges LIQUIDITY =
     [(''src/arbitrage.js'', ''Add liquidity check before analysis'')]"
| "generateCodeChanges SLIPPAGE =
     [(''src/config.js'', ''Make slippage tolerance dynamic'')]"
| "generateCodeChanges GAS =
     [(''src/priceFetcher.js'', ''Add gas price monitoring and optimization'')]"
| "generateCodeChanges c = []"

subsection \<open>The agent and analyzeError\<close>

text \<open>
  A diagnosis and an entry of the error history share \<open>category\<close> and \<open>severity\<close>.
  Timestamps are the wall clock and are left out.
\<close>

record classified =
  category :: category
  severity :: nat

record historyEntry = classified +
  resolved :: bool

record diagnosis = classified +
  errorMessage :: string
  errorCode :: "string option"
  rootCause :: string
  recommendations :: "(string \<times> string) list"
  codeChanges :: "(string \<times> string) list"
  requiresAuth :: bool

record metrics =
  totalAnalyses :: nat
  successfulDiagnoses :: nat
  recommendationsAccepted :: nat
  recommendationsRejected :: nat

text \<open>
  The agent's own \<open>recommendations\<close> list holds the results of
  \<open>optimizeTradingParameters\<close>, which are opaque here; the field is called
  \<open>agentRecommendations\<close>.  Of the agent's configuration, \<open>errorHistoryLimit\<close> and
  \<open>requireAuthForChanges\<close> are read by the code below.
\<close>

typedecl optimization

record agent =
  errorHistoryLimit :: nat
  requireAuthForChanges :: bool
  errorHistory :: "historyEntry list"
  agentRecommendations :: "optimization list"
  diagnosticResults :: "diagnosis list"
  performanceMetrics :: metrics

text \<open>The constructor, with the two configuration values it is given.\<close>

definition newAIAgent :: "nat \<Rightarrow> bool \<Rightarrow> agent" where
  "newAIAgent limit auth =
     \<lparr> errorHistoryLimit = limit, requireAuthForChanges = auth,
       errorHistory = [], agentRecommendations = [], diagnosticResults = [],
       performanceMetrics = \<lparr> totalAnalyses = 0, successfulDiagnoses = 0,
         recommendationsAccepted = 0, recommendationsRejected = 0 \<rparr> \<rparr>"

definition recordError :: "agent \<Rightarrow> diagnosis \<Rightarrow> agent" where
  "recordError ag d =
     (let hist = errorHistory ag
                   @ [\<lparr> category = category d, severity = severity d, resolved = False \<rparr>]
      in ag \<lparr> errorHistory :=
                (if errorHistoryLimit ag < length hist then tl hist else hist) \<rparr>)"

text \<open>
  \<open>error.message || String(error)\<close>: an \<open>Error\<close> with an empty message prints as its
  name.  \<open>error.code || null\<close>: an empty code counts as absent.
\<close>

definition messageOrName :: "jserror \<Rightarrow> string" where
  "messageOrName err = (if message err \<noteq> [] then message err else ''Error'')"

definition codeOrNull :: "jserror \<Rightarrow> string option" where
  "codeOrNull err = (if str_truthy (code err) then code err else None)"

definition analyzeError :: "agent \<Rightarrow> jserror \<Rightarrow> opContext \<Rightarrow> diagnosis \<times> agent" where
  "analyzeError ag err ctx =
     (let ag1 = ag \<lparr> performanceMetrics := (performanceMetrics ag)
                       \<lparr> totalAnalyses := totalAnalyses (performanceMetrics ag) + 1 \<rparr> \<rparr>;
          cat = categorizeError err ctx;
          d = \<lparr> category = cat,
                severity = assessSeverity err ctx,
                errorMessage = messageOrName err,
                errorCode = codeOrNull err,
                rootCause = findRootCause cat,
                recommendations = generateRecommendations cat,
                codeChanges = generateCodeChanges cat,
                requiresAuth = requireAuthForChanges ag \<rparr>;
          ag2 = recordError ag1 d;
          ag3 = ag2 \<lparr> performanceMetrics := (performanceMetrics ag2)
                       \<lparr> successfulDiagnoses :=
                           successfulDiagnoses (performanceMetrics ag2) + 1 \<rparr> \<rparr>;
          ag4 = ag3 \<lparr> diagnosticResults := diagnosticResults ag3 @ [d] \<rparr>
      in (d, ag4))"

text \<open>A sequence of \<open>analyzeError\<close> calls on one agent.\<close>

fun analyzeAll :: "agent \<Rightarrow> (jserror \<times> opContext) list \<Rightarrow> agent" where
  "analyzeAll ag [] = ag"
| "analyzeAll ag (call # calls) =
     analyzeAll (snd (analyzeError ag (fst call) (snd call))) calls"

section \<open>Error handler (errorHandler)\<close>

text \<open>
  The configuration of a \<open>SmartErrorHandler\<close>.  \<open>maxRetries\<close> is a count and
  \<open>retryDelayMs\<close> a finite number of milliseconds.  \<open>verboseLogging\<close> only switches
  console output, which is not modelled, and \<open>authCallback\<close> is not read by
  \<open>wrapAsync\<close>.
\<close>

record handlerConfig =
  useAIAgent :: bool
  maxRetries :: nat
  retryDelayMs :: rat
  exponentialBackoff :: bool
  verboseLogging :: bool

definition ERROR_HANDLER_CONFIG :: handlerConfig where
  "ERROR_HANDLER_CONFIG =
     \<lparr> useAIAgent = True, maxRetries = 3, retryDelayMs = 1000,
       exponentialBackoff = True, verboseLogging = True \<rparr>"

record logEntry =
  logMessage :: string
  logCode :: "string option"
  logContext :: opContext
  logRetryCount :: nat

record handler =
  config :: handlerConfig
  aiAgent :: agent
  errorLog :: "logEntry list"

text \<open>
  The constructor: the given configuration, a fresh agent with the default agent
  configuration (\<open>errorHistoryLimit\<close> 100, \<open>requireAuthForChanges\<close> true) and an
  empty log.
\<close>

definition newSmartErrorHandler :: "handlerConfig \<Rightarrow> handler" where
  "newSmartErrorHandler cfg =
     \<lparr> config = cfg, aiAgent = newAIAgent 100 True, errorLog = [] \<rparr>"

definition logError :: "handler \<Rightarrow> jserror \<Rightarrow> opContext \<Rightarrow> nat \<Rightarrow> handler" where
  "logError h err ctx n =
     h \<lparr> errorLog := errorLog h
            @ [\<lparr> logMessage = message err, logCode = codeOrNull err,
                 logContext = ctx, logRetryCount = n \<rparr>] \<rparr>"

definition retryableCategories :: "category list" where
  "retryableCategories = [NETWORK, GAS, PRICE]"

definition isRetryable :: "category \<Rightarrow> bool" where
  "isRetryable c = (c \<in> set retryableCategories)"

text \<open>\<open>retryDelayMs * Math.pow(2, retryCount - 1)\<close>, or the constant delay.\<close>

definition calculateDelay :: "handlerConfig \<Rightarrow> nat \<Rightarrow> rat" where
  "calculateDelay cfg n =
     (if exponentialBackoff cfg then retryDelayMs cfg * 2 powi (int n - 1)
      else retryDelayMs cfg)"

text \<open>
  The error thrown when the loop is left.  Its fields that share a name with a field of
  another object carry the prefix \<open>enh\<close>.  \<open>diagnosticResults.slice(-1)[0]\<close> is the
  last diagnosis of the agent, or \<open>undefined\<close> when there is none.
\<close>

record enhancedError =
  enhMessage :: string
  originalError :: jserror
  enhContext :: opContext
  enhRetryCount :: nat
  aiDiagnosis :: "diagnosis option"
  enhRecommendations :: "optimization list"

text \<open>
  A wrapped call returns the value of \<open>fn\<close> or throws.  \<open>_enhanceError\<close> reads
  \<open>error.message\<close>, so it throws a \<open>TypeError\<close> itself when no error was caught.
\<close>

datatype 'a outcome = Returned 'a | Thrown enhancedError | ThrownTypeError

definition lastDiagnosis :: "agent \<Rightarrow> diagnosis option" where
  "lastDiagnosis ag =
     (if diagnosticResults ag = [] then None else Some (last (diagnosticResults ag)))"

definition enhanceError :: "handler \<Rightarrow> jserror option \<Rightarrow> opContext \<Rightarrow> nat \<Rightarrow> 'a outcome" where
  "enhanceError h lastError ctx n =
     (case lastError of
        None \<Rightarrow> ThrownTypeError
      | Some err \<Rightarrow>
          Thrown \<lparr> enhMessage = message err, originalError = err, enhContext = ctx,
                   enhRetryCount = n, aiDiagnosis = lastDiagnosis (aiAgent h),
                   enhRecommendations = agentRecommendations (aiAgent h) \<rparr>)"

text \<open>
  What a run of the wrapped function does besides returning: the delays it awaited, in
  order, and the number of times it called \<open>fn\<close>.
\<close>

record trace =
  awaited :: "rat list"
  calls :: nat

text \<open>
  The wrapped function \<open>fn\<close> is given by the outcome of each of its invocations:
  \<open>fn k\<close> is what the call number \<open>k\<close> (counted from 0) of this run resolves or
  rejects with.  The loop of \<open>wrapAsync\<close> carries the handler, the trace, \<open>lastError\<close>
  and \<open>retries\<close>.  \<open>_applyImmediateFixes\<close> only writes to the console.
\<close>

function wrapAsync_loop ::
  "(nat \<Rightarrow> jserror + 'a) \<Rightarrow> opContext \<Rightarrow> handler \<Rightarrow> trace \<Rightarrow> jserror option \<Rightarrow> nat
     \<Rightarrow> 'a outcome \<times> handler \<times> trace"
where
  "wrapAsync_loop fn ctx h tr lastError retries =
     (if retries \<le> maxRetries (config h) then
        (case fn (calls tr) of
           Inr v \<Rightarrow> (Returned v, h, tr \<lparr> calls := calls tr + 1 \<rparr>)
         | Inl err \<Rightarrow>
             (let tr1 = tr \<lparr> calls := calls tr + 1 \<rparr>;
                  retries1 = retries + 1;
                  h1 = logError h err ctx retries1;
                  analysed = analyzeError (aiAgent h1) err (ctx \<lparr> retryCount := Some retries1 \<rparr>);
                  h2 = (if useAIAgent (config h) then h1 \<lparr> aiAgent := snd analysed \<rparr> else h1);
                  tr2 = (if retries1 \<le> maxRetries (config h)
                         then tr1 \<lparr> awaited := awaited tr1 @ [calculateDelay (config h) retries1] \<rparr>
                         else tr1)
              in if useAIAgent (config h) \<and> \<not> isRetryable (category (fst analysed))
                 then (enhanceError h2 (Some err) ctx retries1, h2, tr1)
                 else wrapAsync_loop fn ctx h2 tr2 (Some err) retries1))
      else (enhanceError h lastError ctx retries, h, tr))"
  by pat_completeness auto
termination
proof (relation "measure (\<lambda>(fn, ctx, h, tr, lastError, retries).
                    Suc (maxRetries (config h)) - retries)")
  show "wf (measure (\<lambda>(fn, ctx, h, tr, lastError, retries).
                    Suc (maxRetries (config h)) - retries))"
    by simp
next
  fix fn :: "nat \<Rightarrow> jserror + 'a" and ctx h tr and lastError :: "jserror option"
    and retries err x xa xb xc xd xe
  assume "retries \<le> maxRetries (config h)"
    and "xa = retries + 1"
    and "xb = logError h err ctx xa"
    and "xd = (if useAIAgent (config h) then xb \<lparr> aiAgent := snd xc \<rparr> else xb)"
  then show "((fn, ctx, xd, xe, Some err, xa), (fn, ctx, h, tr, lastError, retries))
      \<in> measure (\<lambda>(fn, ctx, h, tr, lastError, retries). Suc (maxRetries (config h)) - retries)"
    by (simp add: logError_def)
qed

declare wrapAsync_loop.simps [simp del]

text \<open>\<open>wrapAsync(fn, context)(...args)\<close>: the loop from \<open>retries = 0\<close>.\<close>

definition wrapAsync :: "handler \<Rightarrow> (nat \<Rightarrow> jserror + 'a) \<Rightarrow> opContext
    \<Rightarrow> 'a outcome \<times> handler \<times> trace" where
  "wrapAsync h fn ctx = wrapAsync_loop fn ctx h \<lparr> awaited = [], calls = 0 \<rparr> None 0"

section \<open>Example inputs\<close>

text \<open>
  Errors and contexts as the tests and the command line use them, and wrapped functions
  that reject on every call.
\<close>

definition netErr :: jserror where
  "netErr = \<lparr> message = ''Network timeout'', code = Some ''NETWORK_ERROR'' \<rparr>"

definition cfgErr :: jserror where
  "cfgErr = \<lparr> message = ''Invalid config'', code = None \<rparr>"

definition logicErr :: jserror where
  "logicErr = \<lparr> message = ''Cannot read properties of undefined'', code = None \<rparr>"

definition ctx0 :: opContext where
  "ctx0 = \<lparr> operation = None, retryCount = None \<rparr>"

definition fetchContext :: opContext where
  "fetchContext = \<lparr> operation = Some ''price_fetch'', retryCount = None \<rparr>"

definition networkFailure :: "nat \<Rightarrow> jserror + string" where
  "networkFailure k = Inl netErr"

definition configFailure :: "nat \<Rightarrow> jserror + string" where
  "configFailure k = Inl cfgErr"

definition configThenLogicFailure :: "nat \<Rightarrow> jserror + string" where
  "configThenLogicFailure k = (if k = 0 then Inl cfgErr else Inl logicErr)"


section \<open>Properties of the price normalizer\<close>

text \<open>
  C6.  For \<open>sqrtPriceX96\<close> equal to \<open>0n\<close>, \<open>null\<close> or \<open>undefined\<close> and for all
  decimals, \<open>sqrtPriceX96ToPrice\<close> returns the number \<open>0\<close>.  The function has no
  throwing path, so the model is a total function without an error result, and the value
  returned is the finite number \<open>0\<close>, not NaN.
\<close>

theorem sqrtPriceX96ToPrice_zero:
  "sqrtPriceX96ToPrice (BigInt 0) token0Decimals token1Decimals = Fin 0
   \<and> sqrtPriceX96ToPrice Null token0Decimals token1Decimals = Fin 0
   \<and> sqrtPriceX96ToPrice Undefined token0Decimals token1Decimals = Fin 0
   \<and> sqrtPriceX96ToPrice (BigInt 0) token0Decimals token1Decimals \<noteq> NaN
   \<and> sqrtPriceX96ToPrice Null token0Decimals token1Decimals \<noteq> NaN
   \<and> sqrtPriceX96ToPrice Undefined token0Decimals token1Decimals \<noteq> NaN"
  by (simp add: sqrtPriceX96ToPrice_def)

text \<open>
  C2, as stated: when the price normalizes to \<open>0\<close>, the reciprocal is a sentinel and
  not the number Infinity.  It fails at \<open>sqrtPriceX96 = 0n\<close> with decimals 18 and 6:
  the price is \<open>0\<close> and \<open>sqrtPriceX96ToInversePrice\<close> returns \<open>1 / 0\<close>, which is
  Infinity.
\<close>

theorem inverse_price_of_zero_is_infinity:
  "sqrtPriceX96ToPrice (BigInt 0) 18 6 = Fin 0
   \<and> sqrtPriceX96ToInversePrice (BigInt 0) 18 6 = PosInf"
  by (simp add: sqrtPriceX96ToPrice_def sqrtPriceX96ToInversePrice_def)

text \<open>
  C2, amended: for every input whose price normalizes to \<open>0\<close>, the reciprocal returned
  by \<open>sqrtPriceX96ToInversePrice\<close> is the number \<open>+Infinity\<close>.
\<close>

theorem inverse_price_infinite_when_price_zero:
  "sqrtPriceX96ToPrice x token0Decimals token1Decimals = Fin 0 \<Longrightarrow>
   sqrtPriceX96ToInversePrice x token0Decimals token1Decimals = PosInf"
  by (simp add: sqrtPriceX96ToInversePrice_def)

theorem inverse_price_infinite_when_price_zero_witness:
  "sqrtPriceX96ToPrice Undefined 18 6 = Fin 0
   \<and> sqrtPriceX96ToInversePrice Undefined 18 6 = PosInf"
proof -
  have zero: "sqrtPriceX96ToPrice Undefined 18 6 = Fin 0"
    by (simp add: sqrtPriceX96ToPrice_def)
  from inverse_price_infinite_when_price_zero [OF zero] zero show ?thesis
    by simp
qed


section \<open>Properties of the arbitrage calculator\<close>

lemma js_add_commute: "js_add a b = js_add b a"
  by (cases a; cases b; simp add: add.commute)

lemma js_abs_sub_commute: "js_abs (js_sub a b) = js_abs (js_sub b a)"
  by (cases a; cases b; simp add: abs_minus_commute)

text \<open>
  C7.  \<open>calculatePriceDifference\<close> gives the same number for \<open>(a, b)\<close> and
  \<open>(b, a)\<close>, for all numbers including the infinities and NaN, and gives \<open>0\<close> when
  either argument is \<open>0\<close>.  Equality of two NaN results is equality of values, as
  \<open>Object.is\<close> and the test suite's \<open>strictEqual\<close> compare them.
\<close>

theorem calculatePriceDifference_symmetric:
  "calculatePriceDifference a b = calculatePriceDifference b a
   \<and> calculatePriceDifference (Fin 0) b = Fin 0
   \<and> calculatePriceDifference a (Fin 0) = Fin 0"
  by (simp add: calculatePriceDifference_def Let_def js_add_commute [of a b]
        js_abs_sub_commute [of a b] disj_commute)

lemmas arbitrage_defs =
  analyzeArbitrage_def findBest_def okQuote_def failedQuote_def isValidPrice_def
  str_truthy_def num_truthy_def bestStep_def to_number_def js_gt_def
  determineArbitrageDirection_def calculatePriceDifference_def
  calculatePotentialProfit_def calculateNetProfit_def getRecommendation_def
  MIN_PRICE_DIFF_PERCENT_def MIN_PROFIT_THRESHOLD_USD_def
  SLIPPAGE_TOLERANCE_PERCENT_def Let_def

text \<open>
  C1, as stated: for the quotes \<open>A: 3000\<close> and \<open>B: 3030\<close>, trade amount \<open>1\<close> and
  gas cost \<open>0.01\<close> per swap, the analysis reports \<open>isProfitableAfterGas = true\<close>.  It
  reports \<open>false\<close>: \<open>analyzeArbitrage\<close> applies the default slippage of 0.5 percent
  to both legs, so the gross profit is \<open>3030 * 0.995 - 3000 * 1.005 = -0.15\<close>.
\<close>

theorem analyze_3000_3030_not_profitable:
  "map_option isProfitableAfterGas
     (resultAnalysis (analyzeArbitrage [okQuote ''A'' (Fin 3000), okQuote ''B'' (Fin 3030)]
        (Fin 1) (Fin (1 / 100)))) = Some False"
  by (simp add: arbitrage_defs)

text \<open>
  C1, amended: for that input the analysis has \<open>hasOpportunity = true\<close>, buys from A
  and sells to B, has gross profit \<open>-0.15\<close>, gas cost \<open>0.02\<close> and net profit equal to
  the gross profit minus \<open>0.02\<close>, and \<open>isProfitableAfterGas = false\<close>.
\<close>

theorem analyze_3000_3030:
  "analyzeArbitrage [okQuote ''A'' (Fin 3000), okQuote ''B'' (Fin 3030)] (Fin 1) (Fin (1 / 100)) =
   Analysis
     \<lparr> hasOpportunity = True, isProfitableAfterGas = False,
       direction = \<lparr> buyFrom = ''A'', buyPrice = Fin 3000,
                     sellTo = ''B'', sellPrice = Fin 3030 \<rparr>,
       priceDifference = \<lparr> percent = Fin (200 / 201), meetsThreshold = True \<rparr>,
       profitAnalysis =
         \<lparr> tradeAmountEth = Fin 1, pa_grossProfitUsd = Fin (- (3 / 20)),
           pa_gasCostUsd = Fin (1 / 50),
           pa_netProfitUsd = js_sub (Fin (- (3 / 20))) (Fin (2 / 100)),
           profitAfterSlippage = Fin (- (1 / 201)) \<rparr>,
       recommendation = NoTradeGasExceedsProfit (Fin (1 / 50)) (Fin (- (3 / 20))),
       allPrices = [(''A'', Some (Fin 3000), Some ''1000000''),
                    (''B'', Some (Fin 3030), Some ''1000000'')] \<rparr>"
  by (simp add: arbitrage_defs)

text \<open>
  C5.  When fewer than two entries of the list pass the filter of \<open>analyzeArbitrage\<close>
  (no truthy \<open>error\<close> and a truthy price, so neither \<open>undefined\<close>, \<open>0\<close> nor NaN), the
  result is the object with \<open>hasOpportunity = false\<close>, the reason
  ``Insufficient valid price data from DEXes'' and the number of valid entries.  The
  function returns this value: it has no throwing path.
\<close>

theorem analyzeArbitrage_insufficient:
  "length (filter isValidPrice prices) < 2 \<Longrightarrow>
   analyzeArbitrage prices amount gasCost =
     Insufficient ''Insufficient valid price data from DEXes''
       (length (filter isValidPrice prices))
   \<and> resultHasOpportunity (analyzeArbitrage prices amount gasCost) = False"
  by (simp add: analyzeArbitrage_def)

theorem analyzeArbitrage_insufficient_witness:
  "length (filter isValidPrice
      [okQuote ''Uniswap V3'' (Fin 3000), failedQuote ''Aerodrome CL'' ''Pool not found'']) < 2
   \<and> analyzeArbitrage
        [okQuote ''Uniswap V3'' (Fin 3000), failedQuote ''Aerodrome CL'' ''Pool not found'']
        (Fin 1) (Fin (1 / 100))
      = Insufficient ''Insufficient valid price data from DEXes'' 1"
proof -
  have valid: "filter isValidPrice
      [okQuote ''Uniswap V3'' (Fin 3000), failedQuote ''Aerodrome CL'' ''Pool not found'']
      = [okQuote ''Uniswap V3'' (Fin 3000)]"
    by (simp add: okQuote_def failedQuote_def isValidPrice_def str_truthy_def num_truthy_def)
  have few: "length (filter isValidPrice
      [okQuote ''Uniswap V3'' (Fin 3000), failedQuote ''Aerodrome CL'' ''Pool not found'']) < 2"
    unfolding valid by simp
  from analyzeArbitrage_insufficient [OF few, of "Fin 1" "Fin (1 / 100)"] few
  show ?thesis unfolding valid by simp
qed

text \<open>
  The scan of \<open>analyzeArbitrage\<close> finds a lowest and a highest valid price.  When
  the valid quotes carry pairwise different DEX names, the best buy and the best sell
  can share a name only if all valid prices are equal; so two valid quotes with
  different prices from distinct sources always lead to the full analysis.
\<close>

lemma js_lt_trans: "js_lt a b \<Longrightarrow> js_lt b c \<Longrightarrow> js_lt a c"
  by (cases a; cases b; cases c; simp)

lemma js_lt_total: "a \<noteq> NaN \<Longrightarrow> b \<noteq> NaN \<Longrightarrow> js_lt a b \<or> a = b \<or> js_lt b a"
  by (cases a; cases b; auto)

lemma valid_price_not_NaN:
  "isValidPrice p \<Longrightarrow> to_number (priceToken0InToken1 p) \<noteq> NaN"
  by (auto simp: isValidPrice_def num_truthy_def to_number_def split: option.splits)

lemma foldl_bestStep:
  assumes "to_number (priceToken0InToken1 b) \<noteq> NaN"
    and "to_number (priceToken0InToken1 s) \<noteq> NaN"
    and "\<forall>p \<in> set xs. to_number (priceToken0InToken1 p) \<noteq> NaN"
  shows "fst (foldl bestStep (b, s) xs) \<in> set (b # xs)
       \<and> snd (foldl bestStep (b, s) xs) \<in> set (s # xs)
       \<and> (\<forall>p \<in> set (b # xs). \<not> js_lt (to_number (priceToken0InToken1 p))
              (to_number (priceToken0InToken1 (fst (foldl bestStep (b, s) xs)))))
       \<and> (\<forall>p \<in> set (s # xs). \<not> js_lt
              (to_number (priceToken0InToken1 (snd (foldl bestStep (b, s) xs))))
              (to_number (priceToken0InToken1 p)))"
  using assms
proof (induction xs arbitrary: b s)
  case Nil
  then show ?case by (cases "to_number (priceToken0InToken1 b)"; cases "to_number (priceToken0InToken1 s)"; simp)
next
  case (Cons x xs)
  define b1 where "b1 = fst (bestStep (b, s) x)"
  define s1 where "s1 = snd (bestStep (b, s) x)"
  let ?pr = "\<lambda>p. to_number (priceToken0InToken1 p)"
  have b1: "b1 = (if js_lt (?pr x) (?pr b) then x else b)"
    and s1: "s1 = (if js_lt (?pr s) (?pr x) then x else s)"
    by (simp_all add: b1_def s1_def bestStep_def Let_def js_gt_def)
  have fold: "foldl bestStep (b, s) (x # xs) = foldl bestStep (b1, s1) xs"
    by (simp add: b1_def s1_def)
  have nb1: "?pr b1 \<noteq> NaN" and ns1: "?pr s1 \<noteq> NaN"
    using Cons.prems by (auto simp: b1 s1)
  have nxs: "\<forall>p \<in> set xs. ?pr p \<noteq> NaN" using Cons.prems by simp
  note IH = Cons.IH [OF nb1 ns1 nxs]
  let ?b' = "fst (foldl bestStep (b1, s1) xs)"
  let ?s' = "snd (foldl bestStep (b1, s1) xs)"
  have mem: "?b' \<in> set (b # x # xs)" "?s' \<in> set (s # x # xs)"
    using IH by (auto simp: b1 s1 split: if_splits)
  have nb': "?pr ?b' \<noteq> NaN" and ns': "?pr ?s' \<noteq> NaN"
    using mem Cons.prems by auto
  have minb1: "\<not> js_lt (?pr b1) (?pr ?b')" and maxs1: "\<not> js_lt (?pr ?s') (?pr s1)"
    using IH by simp_all
  have minb: "\<not> js_lt (?pr b) (?pr ?b')"
    using minb1 js_lt_trans [of "?pr x" "?pr b" "?pr ?b'"] by (auto simp: b1 split: if_splits)
  have nx: "?pr x \<noteq> NaN" and nb: "?pr b \<noteq> NaN" and ns: "?pr s \<noteq> NaN"
    using Cons.prems by simp_all
  have minx: "\<not> js_lt (?pr x) (?pr ?b')"
  proof
    assume lt: "js_lt (?pr x) (?pr ?b')"
    show False
    proof (cases "js_lt (?pr x) (?pr b)")
      case True
      then show False using minb1 lt by (simp add: b1)
    next
      case False
      then have "b1 = b" by (simp add: b1)
      from js_lt_total [OF nb' nb] minb
      have "?pr ?b' = ?pr b \<or> js_lt (?pr ?b') (?pr b)" by auto
      then show False using lt False js_lt_trans [of "?pr x" "?pr ?b'" "?pr b"] by auto
    qed
  qed
  have maxs: "\<not> js_lt (?pr ?s') (?pr s)"
    using maxs1 js_lt_trans [of "?pr ?s'" "?pr s" "?pr x"] by (auto simp: s1 split: if_splits)
  have maxx: "\<not> js_lt (?pr ?s') (?pr x)"
  proof
    assume lt: "js_lt (?pr ?s') (?pr x)"
    show False
    proof (cases "js_lt (?pr s) (?pr x)")
      case True
      then show False using maxs1 lt by (simp add: s1)
    next
      case False
      from js_lt_total [OF ns ns'] maxs
      have "?pr s = ?pr ?s' \<or> js_lt (?pr s) (?pr ?s')" by auto
      then show False using lt False js_lt_trans [of "?pr s" "?pr ?s'" "?pr x"] by auto
    qed
  qed
  show ?case
    unfolding fold using mem minb minx maxs maxx IH by simp
qed

lemma findBest_same_dex:
  assumes ne: "valid \<noteq> []"
    and ok: "\<forall>p \<in> set valid. isValidPrice p"
    and names: "distinct (map dex valid)"
    and same: "dex (fst (findBest valid)) = dex (snd (findBest valid))"
  shows "\<forall>p \<in> set valid. to_number (priceToken0InToken1 p)
           = to_number (priceToken0InToken1 (fst (findBest valid)))"
proof -
  let ?pr = "\<lambda>p. to_number (priceToken0InToken1 p)"
  obtain x xs where valid: "valid = x # xs" using ne by (cases valid) auto
  have nn: "\<forall>p \<in> set valid. ?pr p \<noteq> NaN" using ok valid_price_not_NaN by blast
  define best where "best = foldl bestStep (x, x) (x # xs)"
  have fb: "findBest valid = best"
    by (simp add: findBest_def valid best_def)
  have nx: "?pr x \<noteq> NaN" and nxs: "\<forall>p \<in> set (x # xs). ?pr p \<noteq> NaN"
    using nn valid by simp_all
  have inv: "fst best \<in> set (x # x # xs) \<and> snd best \<in> set (x # x # xs)
       \<and> (\<forall>p \<in> set (x # x # xs). \<not> js_lt (?pr p) (?pr (fst best)))
       \<and> (\<forall>p \<in> set (x # x # xs). \<not> js_lt (?pr (snd best)) (?pr p))"
    unfolding best_def by (rule foldl_bestStep [OF nx nx nxs])
  have set2: "set (x # x # xs) = set valid"
    by (simp add: valid)
  have memb: "fst best \<in> set valid" and mems: "snd best \<in> set valid"
    and lo: "\<forall>p \<in> set valid. \<not> js_lt (?pr p) (?pr (fst best))"
    and hi: "\<forall>p \<in> set valid. \<not> js_lt (?pr (snd best)) (?pr p)"
    using inv unfolding set2 by blast+
  have "inj_on dex (set valid)" using names by (simp add: distinct_map)
  with memb mems same have eq: "fst best = snd best"
    unfolding fb by (auto dest: inj_onD)
  show ?thesis
    unfolding fb
  proof
    fix p assume p: "p \<in> set valid"
    have "?pr p \<noteq> NaN" "?pr (fst best) \<noteq> NaN" using nn p memb by auto
    from js_lt_total [OF this] lo hi eq p show "?pr p = ?pr (fst best)" by auto
  qed
qed

lemma analysis_computed_for_distinct_sources:
  assumes "distinct (map dex (filter isValidPrice prices))"
    and "p \<in> set (filter isValidPrice prices)"
    and "q \<in> set (filter isValidPrice prices)"
    and "to_number (priceToken0InToken1 p) \<noteq> to_number (priceToken0InToken1 q)"
  shows "2 \<le> length (filter isValidPrice prices)
       \<and> dex (fst (findBest (filter isValidPrice prices)))
           \<noteq> dex (snd (findBest (filter isValidPrice prices)))"
proof
  have "p \<noteq> q" using assms(4) by auto
  with assms(2,3) have "card {p, q} \<le> card (set (filter isValidPrice prices))"
    by (intro card_mono) auto
  also have "\<dots> \<le> length (filter isValidPrice prices)" by (rule card_length)
  finally show "2 \<le> length (filter isValidPrice prices)" using \<open>p \<noteq> q\<close> by simp
next
  have ne: "filter isValidPrice prices \<noteq> []"
  proof
    assume "filter isValidPrice prices = []"
    then have "set (filter isValidPrice prices) = {}"
      by (simp only: set_empty)
    with assms(2) show False
      by (simp only: empty_iff)
  qed
  have ok: "\<forall>p \<in> set (filter isValidPrice prices). isValidPrice p" by simp
  show "dex (fst (findBest (filter isValidPrice prices)))
           \<noteq> dex (snd (findBest (filter isValidPrice prices)))"
  proof
    assume "dex (fst (findBest (filter isValidPrice prices)))
           = dex (snd (findBest (filter isValidPrice prices)))"
    from findBest_same_dex [OF ne ok assms(1) this] assms(2,3,4)
    show False by metis
  qed
qed

text \<open>
  C8.  Whenever the analysis is computed, that is, at least two quotes are valid and
  the best buy and the best sell come from different DEXes, the result is a full
  analysis in which \<open>hasOpportunity\<close> is exactly \<open>percent >= MIN_PRICE_DIFF_PERCENT\<close>
  of the reported price difference, \<open>isProfitableAfterGas\<close> is exactly
  \<open>netProfitUsd > MIN_PROFIT_THRESHOLD_USD\<close> of the reported net profit, and the net
  profit is the gross profit minus twice the gas cost.  The two flags are separate
  fields: for the quotes 3000 and 3020 an opportunity is reported that is not
  profitable after gas.
\<close>

theorem analyzeArbitrage_flags:
  assumes "2 \<le> length (filter isValidPrice prices)"
    and "dex (fst (findBest (filter isValidPrice prices)))
           \<noteq> dex (snd (findBest (filter isValidPrice prices)))"
  shows "(\<exists>a. analyzeArbitrage prices amount gasCost = Analysis a
            \<and> hasOpportunity a = js_ge (percent (priceDifference a)) MIN_PRICE_DIFF_PERCENT
            \<and> isProfitableAfterGas a
                = js_gt (pa_netProfitUsd (profitAnalysis a)) MIN_PROFIT_THRESHOLD_USD
            \<and> pa_netProfitUsd (profitAnalysis a)
                = js_sub (pa_grossProfitUsd (profitAnalysis a)) (js_mul gasCost (Fin 2)))
         \<and> map_option (\<lambda>a. (hasOpportunity a, isProfitableAfterGas a))
             (resultAnalysis (analyzeArbitrage
                [okQuote ''A'' (Fin 3000), okQuote ''B'' (Fin 3020)] (Fin 1) (Fin (1 / 100))))
             = Some (True, False)"
proof
  show "\<exists>a. analyzeArbitrage prices amount gasCost = Analysis a
            \<and> hasOpportunity a = js_ge (percent (priceDifference a)) MIN_PRICE_DIFF_PERCENT
            \<and> isProfitableAfterGas a
                = js_gt (pa_netProfitUsd (profitAnalysis a)) MIN_PROFIT_THRESHOLD_USD
            \<and> pa_netProfitUsd (profitAnalysis a)
                = js_sub (pa_grossProfitUsd (profitAnalysis a)) (js_mul gasCost (Fin 2))"
    using assms by (simp add: analyzeArbitrage_def Let_def calculateNetProfit_def)
next
  show "map_option (\<lambda>a. (hasOpportunity a, isProfitableAfterGas a))
             (resultAnalysis (analyzeArbitrage
                [okQuote ''A'' (Fin 3000), okQuote ''B'' (Fin 3020)] (Fin 1) (Fin (1 / 100))))
             = Some (True, False)"
    by (simp add: arbitrage_defs)
qed

theorem analyzeArbitrage_flags_witness:
  "2 \<le> length (filter isValidPrice [okQuote ''A'' (Fin 3000), okQuote ''B'' (Fin 3100)])
   \<and> dex (fst (findBest (filter isValidPrice
           [okQuote ''A'' (Fin 3000), okQuote ''B'' (Fin 3100)])))
       \<noteq> dex (snd (findBest (filter isValidPrice
           [okQuote ''A'' (Fin 3000), okQuote ''B'' (Fin 3100)])))
   \<and> (\<exists>a. analyzeArbitrage [okQuote ''A'' (Fin 3000), okQuote ''B'' (Fin 3100)]
              (Fin 1) (Fin (1 / 100)) = Analysis a
          \<and> hasOpportunity a = js_ge (percent (priceDifference a)) MIN_PRICE_DIFF_PERCENT
          \<and> isProfitableAfterGas a
              = js_gt (pa_netProfitUsd (profitAnalysis a)) MIN_PROFIT_THRESHOLD_USD)"
proof -
  have two: "2 \<le> length (filter isValidPrice
      [okQuote ''A'' (Fin 3000), okQuote ''B'' (Fin 3100)])"
    by (simp add: okQuote_def isValidPrice_def str_truthy_def num_truthy_def)
  have differ: "dex (fst (findBest (filter isValidPrice
           [okQuote ''A'' (Fin 3000), okQuote ''B'' (Fin 3100)])))
       \<noteq> dex (snd (findBest (filter isValidPrice
           [okQuote ''A'' (Fin 3000), okQuote ''B'' (Fin 3100)])))"
    by (simp add: arbitrage_defs)
  from analyzeArbitrage_flags [OF two differ, of "Fin 1" "Fin (1 / 100)"] two differ
  show ?thesis by blast
qed


section \<open>Properties of the AI agent\<close>

lemma categorizeError_retryCount [simp]:
  "categorizeError err (ctx \<lparr> retryCount := r \<rparr>) = categorizeError err ctx"
  by (simp add: categorizeError_def Let_def)

lemma recordError_fields [simp]:
  "performanceMetrics (recordError ag d) = performanceMetrics ag"
  "requireAuthForChanges (recordError ag d) = requireAuthForChanges ag"
  "agentRecommendations (recordError ag d) = agentRecommendations ag"
  "diagnosticResults (recordError ag d) = diagnosticResults ag"
  "errorHistoryLimit (recordError ag d) = errorHistoryLimit ag"
  by (simp_all add: recordError_def Let_def)

lemma analyzeError_metrics:
  "totalAnalyses (performanceMetrics (snd (analyzeError ag err ctx)))
     = totalAnalyses (performanceMetrics ag) + 1"
  "successfulDiagnoses (performanceMetrics (snd (analyzeError ag err ctx)))
     = successfulDiagnoses (performanceMetrics ag) + 1"
  by (simp_all add: analyzeError_def Let_def)

lemma analyzeError_agent_fields [simp]:
  "requireAuthForChanges (snd (analyzeError ag err ctx)) = requireAuthForChanges ag"
  "agentRecommendations (snd (analyzeError ag err ctx)) = agentRecommendations ag"
  "diagnosticResults (snd (analyzeError ag err ctx))
     = diagnosticResults ag @ [fst (analyzeError ag err ctx)]"
  by (simp_all add: analyzeError_def Let_def)

lemma analyzeError_category [simp]:
  "category (fst (analyzeError ag err ctx)) = categorizeError err ctx"
  by (simp add: analyzeError_def Let_def)

lemma analyzeError_diagnosis_retryCount:
  "fst (analyzeError ag err (ctx \<lparr> retryCount := r \<rparr>)) = fst (analyzeError ag err ctx)"
  by (simp add: analyzeError_def Let_def assessSeverity_def)

lemma analyzeError_diagnosis_cong:
  "requireAuthForChanges ag = requireAuthForChanges ag' \<Longrightarrow>
   fst (analyzeError ag err ctx) = fst (analyzeError ag' err ctx)"
  by (simp add: analyzeError_def Let_def)

lemma lastDiagnosis_analyzeError:
  "lastDiagnosis (snd (analyzeError ag err ctx)) = Some (fst (analyzeError ag err ctx))"
  by (simp add: lastDiagnosis_def)

lemma analyzeAll_metrics:
  "totalAnalyses (performanceMetrics (analyzeAll ag xs))
     = totalAnalyses (performanceMetrics ag) + length xs
   \<and> successfulDiagnoses (performanceMetrics (analyzeAll ag xs))
     = successfulDiagnoses (performanceMetrics ag) + length xs"
  by (induction xs arbitrary: ag) (simp_all add: analyzeError_metrics)

text \<open>
  C10.  \<open>analyzeError\<close> increments \<open>totalAnalyses\<close> at its start and
  \<open>successfulDiagnoses\<close> at its end, and nothing between the two can throw for an
  \<open>Error\<close> with a string message and an object context: classification is a chain of
  substring tests and the rest are table lookups.  So after any sequence of calls on a
  freshly constructed agent the two counters are equal, both to the number of calls, and
  the ratio of successful diagnoses to analyses is 1 whenever there was a call.
\<close>

theorem successfulDiagnoses_eq_totalAnalyses:
  "successfulDiagnoses (performanceMetrics (analyzeAll (newAIAgent limit auth) inputs))
     = totalAnalyses (performanceMetrics (analyzeAll (newAIAgent limit auth) inputs))
   \<and> totalAnalyses (performanceMetrics (analyzeAll (newAIAgent limit auth) inputs))
     = length inputs"
  by (simp add: analyzeAll_metrics newAIAgent_def)


section \<open>Properties of the error handler\<close>

lemma logError_fields [simp]:
  "config (logError h err ctx n) = config h"
  "aiAgent (logError h err ctx n) = aiAgent h"
  by (simp_all add: logError_def)

text \<open>
  The loop when every remaining attempt is rejected and nothing breaks out of it: either
  the agent is off, or each error is classified into a retryable category.  The call
  number equals \<open>retries\<close> at the head of the loop.  The loop then makes all remaining
  attempts, awaits \<open>calculateDelay\<close> of each retry count up to \<open>maxRetries\<close>, and
  throws the enhanced error built from the last rejection.
\<close>

lemma wrapAsync_loop_exhaust:
  assumes "maxRetries (config h) - retries = n"
    and "calls tr = retries"
    and "retries \<le> maxRetries (config h)"
    and "\<forall>k. retries \<le> k \<and> k \<le> maxRetries (config h) \<longrightarrow>
           (\<exists>e. fn k = Inl e \<and> (useAIAgent (config h) \<longrightarrow> isRetryable (categorizeError e ctx)))"
  shows "\<exists>e h'. fn (maxRetries (config h)) = Inl e
           \<and> wrapAsync_loop fn ctx h tr lastError retries =
               (Thrown \<lparr> enhMessage = message e, originalError = e, enhContext = ctx,
                         enhRetryCount = Suc (maxRetries (config h)),
                         aiDiagnosis = lastDiagnosis (aiAgent h'),
                         enhRecommendations = agentRecommendations (aiAgent h) \<rparr>,
                h',
                \<lparr> awaited = awaited tr
                     @ map (calculateDelay (config h)) [Suc retries ..< Suc (maxRetries (config h))],
                  calls = Suc (maxRetries (config h)) \<rparr>)
           \<and> (useAIAgent (config h) \<longrightarrow>
                lastDiagnosis (aiAgent h') = Some (fst (analyzeError (aiAgent h) e ctx)))
           \<and> (\<not> useAIAgent (config h) \<longrightarrow> aiAgent h' = aiAgent h)"
  using assms
proof (induction n arbitrary: h tr lastError retries)
  case 0
  then have eq: "retries = maxRetries (config h)" by simp
  from 0 obtain e where e: "fn retries = Inl e"
    and r: "useAIAgent (config h) \<longrightarrow> isRetryable (categorizeError e ctx)" by blast
  define an where "an = analyzeError (aiAgent h) e (ctx \<lparr> retryCount := Some (Suc retries) \<rparr>)"
  define h2 where "h2 = (if useAIAgent (config h)
      then (logError h e ctx (Suc retries)) \<lparr> aiAgent := snd an \<rparr>
      else logError h e ctx (Suc retries))"
  define tr1 where "tr1 = tr \<lparr> calls := Suc (calls tr) \<rparr>"
  have cfg2: "config h2 = config h"
    by (simp add: h2_def)
  have rec2: "agentRecommendations (aiAgent h2) = agentRecommendations (aiAgent h)"
    by (simp add: h2_def an_def)
  have step: "wrapAsync_loop fn ctx h tr lastError retries
     = wrapAsync_loop fn ctx h2 tr1 (Some e) (Suc retries)"
    using 0 e r by (subst wrapAsync_loop.simps) (simp add: Let_def h2_def tr1_def an_def)
  have stop: "wrapAsync_loop fn ctx h2 tr1 (Some e) (Suc retries)
     = (enhanceError h2 (Some e) ctx (Suc retries), h2, tr1)"
    using eq cfg2 by (subst wrapAsync_loop.simps) simp
  have tr1: "tr1 = \<lparr> awaited = awaited tr
                     @ map (calculateDelay (config h)) [Suc retries ..< Suc (maxRetries (config h))],
                  calls = Suc (maxRetries (config h)) \<rparr>"
    using eq 0(2) by (simp add: tr1_def)
  have res: "wrapAsync_loop fn ctx h tr lastError retries =
               (Thrown \<lparr> enhMessage = message e, originalError = e, enhContext = ctx,
                         enhRetryCount = Suc (maxRetries (config h)),
                         aiDiagnosis = lastDiagnosis (aiAgent h2),
                         enhRecommendations = agentRecommendations (aiAgent h) \<rparr>,
                h2,
                \<lparr> awaited = awaited tr
                     @ map (calculateDelay (config h)) [Suc retries ..< Suc (maxRetries (config h))],
                  calls = Suc (maxRetries (config h)) \<rparr>)"
    unfolding step stop tr1 [symmetric] using eq by (simp add: enhanceError_def rec2)
  have ai: "useAIAgent (config h) \<longrightarrow>
                lastDiagnosis (aiAgent h2) = Some (fst (analyzeError (aiAgent h) e ctx))"
    by (simp add: h2_def an_def lastDiagnosis_analyzeError analyzeError_diagnosis_retryCount)
  have noai: "\<not> useAIAgent (config h) \<longrightarrow> aiAgent h2 = aiAgent h"
    by (simp add: h2_def)
  have fnM: "fn (maxRetries (config h)) = Inl e"
    using e eq by simp
  from fnM res ai noai show ?case by blast
next
  case (Suc n)
  then have lt: "retries < maxRetries (config h)" by simp
  from Suc.prems obtain e where e: "fn retries = Inl e"
    and r: "useAIAgent (config h) \<longrightarrow> isRetryable (categorizeError e ctx)" by blast
  define an where "an = analyzeError (aiAgent h) e (ctx \<lparr> retryCount := Some (Suc retries) \<rparr>)"
  define h2 where "h2 = (if useAIAgent (config h)
      then (logError h e ctx (Suc retries)) \<lparr> aiAgent := snd an \<rparr>
      else logError h e ctx (Suc retries))"
  define tr2 where "tr2 = tr \<lparr> calls := Suc (calls tr),
      awaited := awaited tr @ [calculateDelay (config h) (Suc retries)] \<rparr>"
  have cfg2: "config h2 = config h"
    by (simp add: h2_def)
  have rec2: "agentRecommendations (aiAgent h2) = agentRecommendations (aiAgent h)"
    by (simp add: h2_def an_def)
  have auth2: "requireAuthForChanges (aiAgent h2) = requireAuthForChanges (aiAgent h)"
    by (simp add: h2_def an_def)
  have noai2: "\<not> useAIAgent (config h) \<longrightarrow> aiAgent h2 = aiAgent h"
    by (simp add: h2_def)
  have step: "wrapAsync_loop fn ctx h tr lastError retries
     = wrapAsync_loop fn ctx h2 tr2 (Some e) (Suc retries)"
    using Suc.prems lt e r
    by (subst wrapAsync_loop.simps) (simp add: Let_def h2_def tr2_def an_def)
  have a1: "maxRetries (config h2) - Suc retries = n" using Suc.prems cfg2 by simp
  have a2: "calls tr2 = Suc retries" using Suc.prems by (simp add: tr2_def)
  have a3: "Suc retries \<le> maxRetries (config h2)" using lt cfg2 by simp
  have a4: "\<forall>k. Suc retries \<le> k \<and> k \<le> maxRetries (config h2) \<longrightarrow>
           (\<exists>e. fn k = Inl e \<and> (useAIAgent (config h2) \<longrightarrow> isRetryable (categorizeError e ctx)))"
    unfolding cfg2 using Suc.prems(4) by (meson Suc_leD)
  from Suc.IH [OF a1 a2 a3 a4, of "Some e"]
  obtain e' h' where
    fnM: "fn (maxRetries (config h2)) = Inl e'"
    and res: "wrapAsync_loop fn ctx h2 tr2 (Some e) (Suc retries) =
               (Thrown \<lparr> enhMessage = message e', originalError = e', enhContext = ctx,
                         enhRetryCount = Suc (maxRetries (config h2)),
                         aiDiagnosis = lastDiagnosis (aiAgent h'),
                         enhRecommendations = agentRecommendations (aiAgent h2) \<rparr>,
                h',
                \<lparr> awaited = awaited tr2
                     @ map (calculateDelay (config h2)) [Suc (Suc retries) ..< Suc (maxRetries (config h2))],
                  calls = Suc (maxRetries (config h2)) \<rparr>)"
    and ai: "useAIAgent (config h2) \<longrightarrow>
                lastDiagnosis (aiAgent h') = Some (fst (analyzeError (aiAgent h2) e' ctx))"
    and noai: "\<not> useAIAgent (config h2) \<longrightarrow> aiAgent h' = aiAgent h2"
    by blast
  have upt: "[Suc retries ..< Suc (maxRetries (config h))]
      = Suc retries # [Suc (Suc retries) ..< Suc (maxRetries (config h))]"
    using lt by (simp add: upt_conv_Cons)
  have aw: "awaited tr2
      @ map (calculateDelay (config h)) [Suc (Suc retries) ..< Suc (maxRetries (config h))]
    = awaited tr
      @ map (calculateDelay (config h)) [Suc retries ..< Suc (maxRetries (config h))]"
    unfolding upt by (simp add: tr2_def)
  have diag: "fst (analyzeError (aiAgent h2) e' ctx) = fst (analyzeError (aiAgent h) e' ctx)"
    using auth2 by (rule analyzeError_diagnosis_cong)
  have res': "wrapAsync_loop fn ctx h tr lastError retries =
               (Thrown \<lparr> enhMessage = message e', originalError = e', enhContext = ctx,
                         enhRetryCount = Suc (maxRetries (config h)),
                         aiDiagnosis = lastDiagnosis (aiAgent h'),
                         enhRecommendations = agentRecommendations (aiAgent h) \<rparr>,
                h',
                \<lparr> awaited = awaited tr
                     @ map (calculateDelay (config h)) [Suc retries ..< Suc (maxRetries (config h))],
                  calls = Suc (maxRetries (config h)) \<rparr>)"
    unfolding step res cfg2 rec2 aw ..
  have ai': "useAIAgent (config h) \<longrightarrow>
                lastDiagnosis (aiAgent h') = Some (fst (analyzeError (aiAgent h) e' ctx))"
    using ai unfolding cfg2 diag .
  have noai': "\<not> useAIAgent (config h) \<longrightarrow> aiAgent h' = aiAgent h"
    using noai noai2 unfolding cfg2 by simp
  from fnM [unfolded cfg2] res' ai' noai' show ?case by blast
qed

lemma isRetryable_iff: "isRetryable c = (c = NETWORK \<or> c = GAS \<or> c = PRICE)"
  by (auto simp: isRetryable_def retryableCategories_def)

lemma calculateDelay_exponential:
  "exponentialBackoff cfg \<Longrightarrow> 1 \<le> n \<Longrightarrow>
   calculateDelay cfg n = retryDelayMs cfg * 2 ^ (n - 1)"
  by (simp add: calculateDelay_def power_int_def nat_diff_distrib')

lemma delays_exponential:
  "exponentialBackoff cfg \<Longrightarrow>
   map (calculateDelay cfg) [Suc 0 ..< Suc m] = map (\<lambda>n. retryDelayMs cfg * 2 ^ (n - 1)) [1 ..< m + 1]"
  by (simp add: calculateDelay_exponential del: upt_Suc)

lemma delays_increasing:
  assumes "0 < (b::rat)"
  shows "sorted_wrt (<) (map (\<lambda>n. b * 2 ^ (n - 1)) [1 ..< m + 1])"
proof -
  have "sorted_wrt (\<lambda>x y. b * 2 ^ (x - 1) < b * 2 ^ (y - 1)) [1 ..< m + 1]"
  proof (rule sorted_wrt_mono_rel [where P = "(<)"])
    fix x y :: nat
    assume "x \<in> set [1 ..< m + 1]" and "y \<in> set [1 ..< m + 1]" and "x < y"
    then have "x - 1 < y - 1" by auto
    then have "(2::rat) ^ (x - 1) < 2 ^ (y - 1)"
      by (simp add: power_strict_increasing)
    with assms show "b * 2 ^ (x - 1) < b * 2 ^ (y - 1)"
      by (simp add: mult_strict_left_mono)
  next
    show "sorted_wrt (<) [1 ..< m + 1]" by (rule sorted_wrt_upt)
  qed
  then show ?thesis by (simp only: sorted_wrt_map)
qed

text \<open>
  C3.  With the agent on and exponential backoff, a wrapped function whose every attempt
  is rejected with an error classified as Network is called \<open>maxRetries + 1\<close> times
  (\<open>maxRetries\<close> retries).  The delay awaited before retry \<open>n\<close> is
  \<open>retryDelayMs * 2 ^ (n - 1)\<close>; for a positive \<open>retryDelayMs\<close> the delays are
  strictly increasing.  The call then throws the enhanced error, which carries the error
  of the last attempt, the context, the retry count and, as \<open>aiDiagnosis\<close>, the
  diagnosis of that last error, whose category is Network.
\<close>

theorem wrapAsync_network_exhausts:
  assumes ai: "useAIAgent (config h)"
    and backoff: "exponentialBackoff (config h)"
    and fails: "\<forall>k. k \<le> maxRetries (config h) \<longrightarrow>
                  (\<exists>e. fn k = Inl e \<and> categorizeError e ctx = NETWORK)"
  shows "\<exists>e h' d.
           fn (maxRetries (config h)) = Inl e
         \<and> wrapAsync h fn ctx =
             (Thrown \<lparr> enhMessage = message e, originalError = e, enhContext = ctx,
                       enhRetryCount = maxRetries (config h) + 1,
                       aiDiagnosis = Some d,
                       enhRecommendations = agentRecommendations (aiAgent h) \<rparr>,
              h',
              \<lparr> awaited = map (\<lambda>n. retryDelayMs (config h) * 2 ^ (n - 1))
                            [1 ..< maxRetries (config h) + 1],
                calls = maxRetries (config h) + 1 \<rparr>)
         \<and> d = fst (analyzeError (aiAgent h) e ctx)
         \<and> category d = NETWORK
         \<and> lastDiagnosis (aiAgent h') = Some d
         \<and> (0 < retryDelayMs (config h) \<longrightarrow>
              sorted_wrt (<) (map (\<lambda>n. retryDelayMs (config h) * 2 ^ (n - 1))
                            [1 ..< maxRetries (config h) + 1]))"
proof -
  have retry: "\<forall>k. 0 \<le> k \<and> k \<le> maxRetries (config h) \<longrightarrow>
           (\<exists>e. fn k = Inl e \<and> (useAIAgent (config h) \<longrightarrow> isRetryable (categorizeError e ctx)))"
    using fails by (auto simp: isRetryable_iff)
  from wrapAsync_loop_exhaust [where h = h and tr = "\<lparr> awaited = [], calls = 0 \<rparr>"
      and retries = 0 and fn = fn and ctx = ctx and lastError = None, OF refl _ _ retry]
  obtain e h' where fnM: "fn (maxRetries (config h)) = Inl e"
    and res: "wrapAsync_loop fn ctx h \<lparr> awaited = [], calls = 0 \<rparr> None 0 =
               (Thrown \<lparr> enhMessage = message e, originalError = e, enhContext = ctx,
                         enhRetryCount = Suc (maxRetries (config h)),
                         aiDiagnosis = lastDiagnosis (aiAgent h'),
                         enhRecommendations = agentRecommendations (aiAgent h) \<rparr>,
                h',
                \<lparr> awaited = awaited \<lparr> awaited = [], calls = 0 \<rparr>
                     @ map (calculateDelay (config h)) [Suc 0 ..< Suc (maxRetries (config h))],
                  calls = Suc (maxRetries (config h)) \<rparr>)"
    and diag: "useAIAgent (config h) \<longrightarrow>
                lastDiagnosis (aiAgent h') = Some (fst (analyzeError (aiAgent h) e ctx))"
    by auto
  from fails fnM have net: "categorizeError e ctx = NETWORK" by auto
  have last: "lastDiagnosis (aiAgent h') = Some (fst (analyzeError (aiAgent h) e ctx))"
    using diag ai by simp
  have run: "wrapAsync h fn ctx =
             (Thrown \<lparr> enhMessage = message e, originalError = e, enhContext = ctx,
                       enhRetryCount = maxRetries (config h) + 1,
                       aiDiagnosis = Some (fst (analyzeError (aiAgent h) e ctx)),
                       enhRecommendations = agentRecommendations (aiAgent h) \<rparr>,
              h',
              \<lparr> awaited = map (\<lambda>n. retryDelayMs (config h) * 2 ^ (n - 1))
                            [1 ..< maxRetries (config h) + 1],
                calls = maxRetries (config h) + 1 \<rparr>)"
    unfolding wrapAsync_def res last delays_exponential [OF backoff] by simp
  have cat: "category (fst (analyzeError (aiAgent h) e ctx)) = NETWORK"
    using net by simp
  from fnM run cat last delays_increasing [of "retryDelayMs (config h)" "maxRetries (config h)"]
  show ?thesis by blast
qed

theorem wrapAsync_network_exhausts_witness:
  "useAIAgent (config (newSmartErrorHandler ERROR_HANDLER_CONFIG))
   \<and> exponentialBackoff (config (newSmartErrorHandler ERROR_HANDLER_CONFIG))
   \<and> categorizeError netErr fetchContext = NETWORK
   \<and> calls (snd (snd (wrapAsync (newSmartErrorHandler ERROR_HANDLER_CONFIG) networkFailure fetchContext))) = 4
   \<and> awaited (snd (snd (wrapAsync (newSmartErrorHandler ERROR_HANDLER_CONFIG) networkFailure fetchContext)))
       = [1000, 2000, 4000]
   \<and> (\<exists>enh. fst (wrapAsync (newSmartErrorHandler ERROR_HANDLER_CONFIG) networkFailure fetchContext)
              = Thrown enh
         \<and> originalError enh = netErr \<and> enhContext enh = fetchContext \<and> enhRetryCount enh = 4
         \<and> map_option category (aiDiagnosis enh) = Some NETWORK)"
proof -
  let ?h = "newSmartErrorHandler ERROR_HANDLER_CONFIG"
  have ai: "useAIAgent (config ?h)" and backoff: "exponentialBackoff (config ?h)"
    and m: "maxRetries (config ?h) = 3" and b: "retryDelayMs (config ?h) = 1000"
    by (simp_all add: newSmartErrorHandler_def ERROR_HANDLER_CONFIG_def)
  have net: "categorizeError netErr fetchContext = NETWORK"
    by (simp add: categorizeError_def netErr_def orEmpty_def)
  have fails: "\<forall>k. k \<le> maxRetries (config ?h) \<longrightarrow>
                  (\<exists>e. networkFailure k = Inl e \<and> categorizeError e fetchContext = NETWORK)"
    by (simp add: networkFailure_def net)
  have delays: "map (\<lambda>n. 1000 * 2 ^ (n - 1)) [1 ..< 3 + 1] = [1000, 2000, 4000::rat]"
    by (simp add: upt_rec)
  from wrapAsync_network_exhausts [where h = ?h and fn = networkFailure and ctx = fetchContext,
      OF ai backoff fails]
  obtain e h' d where fnM: "networkFailure 3 = Inl e"
    and run: "wrapAsync ?h networkFailure fetchContext =
             (Thrown \<lparr> enhMessage = message e, originalError = e, enhContext = fetchContext,
                       enhRetryCount = 3 + 1,
                       aiDiagnosis = Some d,
                       enhRecommendations = agentRecommendations (aiAgent ?h) \<rparr>,
              h',
              \<lparr> awaited = map (\<lambda>n. 1000 * 2 ^ (n - 1)) [1 ..< 3 + 1], calls = 3 + 1 \<rparr>)"
    and cat: "category d = NETWORK"
    unfolding m b by blast
  have e: "e = netErr"
    using fnM by (simp add: networkFailure_def)
  show ?thesis
    unfolding run delays using ai backoff net by (simp add: e cat)
qed

text \<open>
  C4.  The retryable categories are exactly Network, Gas and Price.  With the agent on
  (only then is a failure classified), a first attempt rejected with an error of any
  other category ends the run: \<open>fn\<close> was called once, no delay was awaited, and the
  enhanced error with the diagnosis is thrown.
\<close>

theorem wrapAsync_nonretryable_stops:
  assumes ai: "useAIAgent (config h)"
    and fails: "fn 0 = Inl e"
    and other: "categorizeError e ctx \<notin> {NETWORK, GAS, PRICE}"
  shows "{c. isRetryable c} = {NETWORK, GAS, PRICE}
       \<and> (\<exists>h'. wrapAsync h fn ctx =
             (Thrown \<lparr> enhMessage = message e, originalError = e, enhContext = ctx,
                       enhRetryCount = 1,
                       aiDiagnosis = Some (fst (analyzeError (aiAgent h) e ctx)),
                       enhRecommendations = agentRecommendations (aiAgent h) \<rparr>,
              h', \<lparr> awaited = [], calls = 1 \<rparr>))"
proof
  show "{c. isRetryable c} = {NETWORK, GAS, PRICE}"
    by (auto simp: isRetryable_iff)
next
  have no: "\<not> isRetryable (categorizeError e ctx)"
    using other by (simp add: isRetryable_iff)
  show "\<exists>h'. wrapAsync h fn ctx =
             (Thrown \<lparr> enhMessage = message e, originalError = e, enhContext = ctx,
                       enhRetryCount = 1,
                       aiDiagnosis = Some (fst (analyzeError (aiAgent h) e ctx)),
                       enhRecommendations = agentRecommendations (aiAgent h) \<rparr>,
              h', \<lparr> awaited = [], calls = 1 \<rparr>)"
    unfolding wrapAsync_def using ai fails no
    by (subst wrapAsync_loop.simps)
       (simp add: Let_def enhanceError_def lastDiagnosis_analyzeError
          analyzeError_diagnosis_retryCount)
qed

theorem wrapAsync_nonretryable_stops_witness:
  "useAIAgent (config (newSmartErrorHandler ERROR_HANDLER_CONFIG))
   \<and> configFailure 0 = Inl cfgErr
   \<and> categorizeError cfgErr ctx0 = CONFIG
   \<and> calls (snd (snd (wrapAsync (newSmartErrorHandler ERROR_HANDLER_CONFIG) configFailure ctx0))) = 1
   \<and> awaited (snd (snd (wrapAsync (newSmartErrorHandler ERROR_HANDLER_CONFIG) configFailure ctx0))) = []"
proof -
  let ?h = "newSmartErrorHandler ERROR_HANDLER_CONFIG"
  have ai: "useAIAgent (config ?h)"
    by (simp add: newSmartErrorHandler_def ERROR_HANDLER_CONFIG_def)
  have cat: "categorizeError cfgErr ctx0 = CONFIG"
    by (simp add: categorizeError_def cfgErr_def ctx0_def toLowerCase_def lowerChar_def orEmpty_def)
  have other: "categorizeError cfgErr ctx0 \<notin> {NETWORK, GAS, PRICE}"
    by (simp add: cat)
  have fails: "configFailure 0 = Inl cfgErr"
    by (simp add: configFailure_def)
  from wrapAsync_nonretryable_stops [where h = ?h and fn = configFailure and e = cfgErr
      and ctx = ctx0, OF ai fails other]
  obtain h' where run: "wrapAsync ?h configFailure ctx0 =
             (Thrown \<lparr> enhMessage = message cfgErr, originalError = cfgErr, enhContext = ctx0,
                       enhRetryCount = 1,
                       aiDiagnosis = Some (fst (analyzeError (aiAgent ?h) cfgErr ctx0)),
                       enhRecommendations = agentRecommendations (aiAgent ?h) \<rparr>,
              h', \<lparr> awaited = [], calls = 1 \<rparr>)"
    by blast
  show ?thesis
    unfolding run using ai fails by (simp add: cat)
qed

text \<open>
  C9.  With \<open>useAIAgent\<close> false the retryability check is never reached: a wrapped
  function whose every attempt is rejected, with whatever errors, is called
  \<open>maxRetries + 1\<close> times with a delay before each retry, and the agent is left
  untouched.  The witness rejects with a Configuration-class error and then with
  Logic-class errors.
\<close>

theorem wrapAsync_without_agent_retries_all:
  assumes noai: "\<not> useAIAgent (config h)"
    and fails: "\<forall>k. k \<le> maxRetries (config h) \<longrightarrow> (\<exists>e. fn k = Inl e)"
  shows "\<exists>e h'.
           fn (maxRetries (config h)) = Inl e
         \<and> wrapAsync h fn ctx =
             (Thrown \<lparr> enhMessage = message e, originalError = e, enhContext = ctx,
                       enhRetryCount = maxRetries (config h) + 1,
                       aiDiagnosis = lastDiagnosis (aiAgent h),
                       enhRecommendations = agentRecommendations (aiAgent h) \<rparr>,
              h',
              \<lparr> awaited = map (calculateDelay (config h)) [1 ..< maxRetries (config h) + 1],
                calls = maxRetries (config h) + 1 \<rparr>)
         \<and> aiAgent h' = aiAgent h"
proof -
  have retry: "\<forall>k. 0 \<le> k \<and> k \<le> maxRetries (config h) \<longrightarrow>
           (\<exists>e. fn k = Inl e \<and> (useAIAgent (config h) \<longrightarrow> isRetryable (categorizeError e ctx)))"
    using fails noai by simp
  from wrapAsync_loop_exhaust [where h = h and tr = "\<lparr> awaited = [], calls = 0 \<rparr>"
      and retries = 0 and fn = fn and ctx = ctx and lastError = None, OF refl _ _ retry]
  obtain e h' where fnM: "fn (maxRetries (config h)) = Inl e"
    and res: "wrapAsync_loop fn ctx h \<lparr> awaited = [], calls = 0 \<rparr> None 0 =
               (Thrown \<lparr> enhMessage = message e, originalError = e, enhContext = ctx,
                         enhRetryCount = Suc (maxRetries (config h)),
                         aiDiagnosis = lastDiagnosis (aiAgent h'),
                         enhRecommendations = agentRecommendations (aiAgent h) \<rparr>,
                h',
                \<lparr> awaited = awaited \<lparr> awaited = [], calls = 0 \<rparr>
                     @ map (calculateDelay (config h)) [Suc 0 ..< Suc (maxRetries (config h))],
                  calls = Suc (maxRetries (config h)) \<rparr>)"
    and same: "\<not> useAIAgent (config h) \<longrightarrow> aiAgent h' = aiAgent h"
    by auto
  have ag: "aiAgent h' = aiAgent h" using same noai by simp
  have run: "wrapAsync h fn ctx =
             (Thrown \<lparr> enhMessage = message e, originalError = e, enhContext = ctx,
                       enhRetryCount = maxRetries (config h) + 1,
                       aiDiagnosis = lastDiagnosis (aiAgent h),
                       enhRecommendations = agentRecommendations (aiAgent h) \<rparr>,
              h',
              \<lparr> awaited = map (calculateDelay (config h)) [1 ..< maxRetries (config h) + 1],
                calls = maxRetries (config h) + 1 \<rparr>)"
    unfolding wrapAsync_def res ag by simp
  from fnM run ag show ?thesis by blast
qed

theorem wrapAsync_without_agent_retries_all_witness:
  "\<not> useAIAgent (config (newSmartErrorHandler (ERROR_HANDLER_CONFIG \<lparr> useAIAgent := False \<rparr>)))
   \<and> categorizeError cfgErr ctx0 = CONFIG \<and> categorizeError logicErr ctx0 = LOGIC
   \<and> calls (snd (snd (wrapAsync
        (newSmartErrorHandler (ERROR_HANDLER_CONFIG \<lparr> useAIAgent := False \<rparr>))
        configThenLogicFailure ctx0))) = 4
   \<and> length (awaited (snd (snd (wrapAsync
        (newSmartErrorHandler (ERROR_HANDLER_CONFIG \<lparr> useAIAgent := False \<rparr>))
        configThenLogicFailure ctx0)))) = 3"
proof -
  let ?h = "newSmartErrorHandler (ERROR_HANDLER_CONFIG \<lparr> useAIAgent := False \<rparr>)"
  have noai: "\<not> useAIAgent (config ?h)" and m: "maxRetries (config ?h) = 3"
    by (simp_all add: newSmartErrorHandler_def ERROR_HANDLER_CONFIG_def)
  have cat: "categorizeError cfgErr ctx0 = CONFIG"
    by (simp add: categorizeError_def cfgErr_def ctx0_def toLowerCase_def lowerChar_def orEmpty_def)
  have cat2: "categorizeError logicErr ctx0 = LOGIC"
    by (simp add: categorizeError_def logicErr_def ctx0_def toLowerCase_def lowerChar_def orEmpty_def)
  have fails: "\<forall>k. k \<le> maxRetries (config ?h) \<longrightarrow> (\<exists>e. configThenLogicFailure k = Inl e)"
    by (simp add: configThenLogicFailure_def)
  from wrapAsync_without_agent_retries_all [where h = ?h and fn = configThenLogicFailure
      and ctx = ctx0, OF noai fails]
  obtain e h' where run: "wrapAsync ?h configThenLogicFailure ctx0 =
             (Thrown \<lparr> enhMessage = message e, originalError = e, enhContext = ctx0,
                       enhRetryCount = 3 + 1,
                       aiDiagnosis = lastDiagnosis (aiAgent ?h),
                       enhRecommendations = agentRecommendations (aiAgent ?h) \<rparr>,
              h',
              \<lparr> awaited = map (calculateDelay (config ?h)) [1 ..< 3 + 1], calls = 3 + 1 \<rparr>)"
    unfolding m by blast
  show ?thesis
    unfolding run using noai by (simp add: cat cat2)
qed

end
